theory Spec2Isabelle
  imports Complex_Main
begin

section \<open>Visualizer assets (rktl\_sim/src/visualizer/asset.py)\<close>

text \<open>
  pygame is an external collaborator. The three functions of it that \<open>Image\<close> calls
  (\<open>pygame.image.load\<close>, \<open>pygame.transform.scale\<close>, \<open>pygame.transform.rotate\<close>) are
  taken as parameters over an abstract surface type \<open>'img\<close>; each of them returns a new
  surface and leaves its argument alone. Python floats are idealised as reals. The field
  \<open>length\<close> of \<open>Image\<close> is \<open>length_px\<close> here (\<open>length\<close> is the length of a list in HOL).
\<close>

record 'img pygame =
  image_load :: "string \<Rightarrow> 'img"
  transform_scale :: "'img \<Rightarrow> real \<times> real \<Rightarrow> 'img"
  transform_rotate :: "'img \<Rightarrow> real \<Rightarrow> 'img"

record 'img Image =
  width :: real
  length_px :: real
  pos :: "real \<times> real"
  angle :: real
  init_img :: 'img
  img :: 'img

text \<open>\<open>Image.__init__\<close>, lines 24-32.\<close>

definition Image_init :: "'img pygame \<Rightarrow> real \<Rightarrow> real \<Rightarrow> string \<Rightarrow> 'img Image" where
  "Image_init pg w l img_path =
     (let loaded = image_load pg img_path;
          scaled = transform_scale pg loaded (w, l)
      in \<lparr>width = w, length_px = l, pos = (0, 0), angle = 0,
          init_img = scaled, img = scaled\<rparr>)"

text \<open>\<open>Image.setPos\<close>, lines 34-35.\<close>

definition setPos :: "real \<Rightarrow> real \<Rightarrow> 'img Image \<Rightarrow> 'img Image" where
  "setPos x y s = s\<lparr>pos := (x, y)\<rparr>"

text \<open>
  \<open>Image.setAngle\<close>, lines 37-41. The parameter \<open>angle\<close> is a local variable: the
  field \<open>self.angle\<close> is not written.
\<close>

definition setAngle :: "'img pygame \<Rightarrow> real \<Rightarrow> 'img Image \<Rightarrow> 'img Image" where
  "setAngle pg a s =
     (let a' = (if a < 0 then 360.0 + a else a)
      in s\<lparr>img := transform_rotate pg (init_img s) a'\<rparr>)"

section \<open>Python values shared by the models\<close>

text \<open>
  Exceptions are values. A method that mutates its object before it raises leaves the
  mutation behind, so a method returns its outcome together with the object.
\<close>

datatype py_error = AttributeError | KeyError | TypeError | IndexError

datatype outcome = Returned | Raised py_error | Blocked

definition bind_err :: "py_error + 'a \<Rightarrow> ('a \<Rightarrow> py_error + 'b) \<Rightarrow> py_error + 'b" where
  "bind_err m f = (case m of Inl e \<Rightarrow> Inl e | Inr v \<Rightarrow> f v)"

text \<open>\<open>d[k]\<close> on a dict: KeyError when the key is missing.\<close>

definition getitem_dict :: "('k \<rightharpoonup> 'v) \<Rightarrow> 'k \<Rightarrow> py_error + 'v" where
  "getitem_dict d k = (case d k of None \<Rightarrow> Inl KeyError | Some v \<Rightarrow> Inr v)"

section \<open>The pybullet simulator (rocket\_league\_simulation/src/simulator/sim.py)\<close>

text \<open>
  pybullet and \<open>simulator.car.Car\<close> are external to the file. The engine's world is an
  abstract state \<open>'w\<close>, a \<open>Car\<close> object an abstract value \<open>'c\<close>, and the calls the class
  makes are the fields of a record of functions. A pybullet contact point is a tuple whose
  element 2 is \<open>bodyUniqueIdB\<close>; the model keeps elements 0 to 2.
\<close>

type_synonym contact = "int \<times> int \<times> int"

definition contact2 :: "contact \<Rightarrow> int" where
  "contact2 c = snd (snd c)"

record ('w, 'c) pybullet =
  connect :: "bool \<Rightarrow> 'w \<Rightarrow> int \<times> 'w"
  setAdditionalSearchPath :: "'w \<Rightarrow> 'w"
  getQuaternionFromEuler :: "real list \<Rightarrow> real list"
  loadURDF :: "string \<Rightarrow> real list option \<Rightarrow> real list option \<Rightarrow> bool \<Rightarrow> 'w \<Rightarrow> int \<times> 'w"
  setGravity :: "real \<Rightarrow> real \<Rightarrow> real \<Rightarrow> 'w \<Rightarrow> 'w"
  getContactPoints :: "int \<Rightarrow> 'w \<Rightarrow> contact list"
  stepSimulation :: "'w \<Rightarrow> 'w"
  resetBasePositionAndOrientation :: "int \<Rightarrow> real list \<Rightarrow> real list \<Rightarrow> 'w \<Rightarrow> 'w"
  Car_new :: "int \<Rightarrow> real \<Rightarrow> real list \<Rightarrow> real list \<Rightarrow> 'c"
  Car_step :: "'c \<Rightarrow> real \<times> real \<Rightarrow> real \<Rightarrow> 'w \<Rightarrow> 'c \<times> 'w"
  Car_reset :: "'c \<Rightarrow> 'w \<Rightarrow> 'c \<times> 'w"

text \<open>The engine calls a method makes, in order, so that "not invoked" can be stated.\<close>

datatype engine_call =
    GetContactPoints int
  | CarStep int real real real
  | StepSimulation
  | ResetBasePositionAndOrientation int
  | CarReset

text \<open>
  The object. A leading underscore is not an Isabelle identifier, so the attribute
  \<open>self._x\<close> is the field \<open>u_x\<close>. \<open>u_cars\<close> is the dict \<open>self._cars\<close> in insertion order.
  Python objects are open: an attribute exists once something assigns it. The attributes
  that the class reads or writes but \<open>__init__\<close> does not assign are option fields, with
  \<open>None\<close> for an attribute that does not exist: \<open>touchedLast\<close> (written by \<open>step\<close>),
  \<open>u_ballInitPos\<close>, \<open>u_ballInitOrient\<close> and \<open>cars\<close> (read by \<open>reset\<close>).
  For \<open>touched_last\<close>, which \<open>__init__\<close> does assign, \<open>None\<close> is Python's \<open>None\<close>.
\<close>

record ('w, 'c) Sim =
  u_client :: int
  u_planeID :: int
  u_ballID :: int
  u_goalID :: int
  u_cars :: "(int \<times> 'c) list"
  u_carID :: int
  touched_last :: "int option"
  scored :: bool
  running :: bool
  touchedLast :: "int option"
  u_ballInitPos :: "real list option"
  u_ballInitOrient :: "real list option"
  cars :: "'c list option"
  world :: 'w

text \<open>
  \<open>p.loadURDF(urdf_paths[kp], field_setup[kf], zeroOrient, useFixedBase=...)\<close>: the two
  subscripts are evaluated first, left to right.
\<close>

definition load_body ::
  "('w, 'c) pybullet \<Rightarrow> (string \<rightharpoonup> string) \<Rightarrow> (string \<rightharpoonup> real list) \<Rightarrow> string \<Rightarrow> string \<Rightarrow>
   real list \<Rightarrow> bool \<Rightarrow> 'w \<Rightarrow> py_error + int \<times> 'w" where
  "load_body p urdf_paths field_setup kp kf orient fixed w =
     bind_err (getitem_dict urdf_paths kp) (\<lambda>path.
     bind_err (getitem_dict field_setup kf) (\<lambda>position.
     Inr (loadURDF p path (Some position) (Some orient) fixed w)))"

text \<open>\<open>Sim.__init__\<close>, lines 44-79; \<open>w0\<close> is the engine before \<open>p.connect\<close>.\<close>

definition Sim_init ::
  "('w, 'c) pybullet \<Rightarrow> (string \<rightharpoonup> string) \<Rightarrow> (string \<rightharpoonup> real list) \<Rightarrow> bool \<Rightarrow> 'w \<Rightarrow>
   py_error + ('w, 'c) Sim" where
  "Sim_init p urdf_paths field_setup render_enabled w0 =
     (let (client_id, w1) = connect p render_enabled w0;
          w2 = setAdditionalSearchPath p w1;
          (plane_id, w3) = loadURDF p ''plane.urdf'' None None False w2;
          zeroOrient = getQuaternionFromEuler p [0, 0, 0]
      in
      bind_err (load_body p urdf_paths field_setup ''ball'' ''ball'' zeroOrient False w3)
        (\<lambda>(ball_id, w4).
      bind_err (load_body p urdf_paths field_setup ''goal'' ''goal'' zeroOrient True w4)
        (\<lambda>(goal_id, w5).
      bind_err (load_body p urdf_paths field_setup ''sidewall'' ''leftsidewall'' zeroOrient True w5)
        (\<lambda>(_, w6).
      bind_err (load_body p urdf_paths field_setup ''sidewall'' ''rightsidewall'' zeroOrient True w6)
        (\<lambda>(_, w7).
      bind_err (load_body p urdf_paths field_setup ''backwall'' ''frontbackwall'' zeroOrient True w7)
        (\<lambda>(_, w8).
      bind_err (load_body p urdf_paths field_setup ''backwall'' ''backbackwall'' zeroOrient True w8)
        (\<lambda>(_, w9).
      bind_err (load_body p urdf_paths field_setup ''car'' ''car'' zeroOrient False w9)
        (\<lambda>(car_id, w10).
      bind_err (getitem_dict field_setup ''car'') (\<lambda>car_pos.
      Inr \<lparr>u_client = client_id, u_planeID = plane_id, u_ballID = ball_id,
           u_goalID = goal_id,
           u_cars = [(car_id, Car_new p car_id 0.5 car_pos [0, 0, pi / 2])],
           u_carID = car_id,
           touched_last = None, scored = False, running = True,
           touchedLast = None, u_ballInitPos = None, u_ballInitOrient = None,
           cars = None,
           world = setGravity p 0 0 (- 10) w10\<rparr>)))))))))"

text \<open>
  The loop over the contacts in \<open>Sim.step\<close>, lines 85-91. The flag of the result says
  whether the loop left the method through \<open>return\<close>. Line 87 assigns the attribute
  \<open>touchedLast\<close>.
\<close>

fun scan_contacts :: "('w, 'c) Sim \<Rightarrow> contact list \<Rightarrow> bool \<times> ('w, 'c) Sim" where
  "scan_contacts s [] = (False, s)"
| "scan_contacts s (c # cs) =
     (if contact2 c \<in> fst ` set (u_cars s)
      then scan_contacts (s\<lparr>touchedLast := Some (contact2 c)\<rparr>) cs
      else if contact2 c = u_goalID s
      then (True, s\<lparr>scored := True, running := False\<rparr>)
      else scan_contacts s cs)"

text \<open>\<open>for car in self._cars.values(): car.step((throttle_cmd, steering_cmd), dt)\<close>.\<close>

fun step_cars ::
  "('w, 'c) pybullet \<Rightarrow> real \<times> real \<Rightarrow> real \<Rightarrow> (int \<times> 'c) list \<Rightarrow> 'w \<Rightarrow>
   engine_call list \<times> (int \<times> 'c) list \<times> 'w" where
  "step_cars p cmd dt [] w = ([], [], w)"
| "step_cars p cmd dt ((k, car) # rest) w =
     (let (car', w') = Car_step p car cmd dt w;
          (calls, rest', w'') = step_cars p cmd dt rest w'
      in (CarStep k (fst cmd) (snd cmd) dt # calls, (k, car') # rest', w''))"

text \<open>\<open>Sim.step\<close>, lines 81-96.\<close>

definition step ::
  "('w, 'c) pybullet \<Rightarrow> real \<Rightarrow> real \<Rightarrow> real \<Rightarrow> ('w, 'c) Sim \<Rightarrow> engine_call list \<times> ('w, 'c) Sim" where
  "step p throttle_cmd steering_cmd dt s =
     (if running s then
        (let contacts = getContactPoints p (u_ballID s) (world s)
         in case scan_contacts s contacts of
              (True, s') \<Rightarrow> ([GetContactPoints (u_ballID s)], s')
            | (False, s') \<Rightarrow>
                (let (calls, cars', w') =
                       step_cars p (throttle_cmd, steering_cmd) dt (u_cars s') (world s')
                 in (GetContactPoints (u_ballID s) # calls @ [StepSimulation],
                     s'\<lparr>u_cars := cars', world := stepSimulation p w'\<rparr>)))
      else ([], s))"

text \<open>\<open>for car in self.cars: car.reset()\<close>.\<close>

fun reset_cars ::
  "('w, 'c) pybullet \<Rightarrow> 'c list \<Rightarrow> 'w \<Rightarrow> engine_call list \<times> 'c list \<times> 'w" where
  "reset_cars p [] w = ([], [], w)"
| "reset_cars p (car # rest) w =
     (let (car', w') = Car_reset p car w;
          (calls, rest', w'') = reset_cars p rest w'
      in (CarReset # calls, car' # rest', w''))"

text \<open>
  \<open>Sim.reset\<close>, lines 112-123. The arguments of line 117 are evaluated left to right, so
  a missing \<open>_ballInitPos\<close> raises before the engine is called.
\<close>

definition reset ::
  "('w, 'c) pybullet \<Rightarrow> ('w, 'c) Sim \<Rightarrow> outcome \<times> engine_call list \<times> ('w, 'c) Sim" where
  "reset p s =
     (let s1 = s\<lparr>running := False, scored := False, touched_last := None\<rparr>
      in case u_ballInitPos s1 of
           None \<Rightarrow> (Raised AttributeError, [], s1)
         | Some init_pos \<Rightarrow>
        (case u_ballInitOrient s1 of
           None \<Rightarrow> (Raised AttributeError, [], s1)
         | Some init_orient \<Rightarrow>
        (let s2 = s1\<lparr>world :=
                    resetBasePositionAndOrientation p (u_ballID s1) init_pos init_orient (world s1)\<rparr>
         in case cars s2 of
              None \<Rightarrow> (Raised AttributeError, [ResetBasePositionAndOrientation (u_ballID s1)], s2)
            | Some cs \<Rightarrow>
                (let (calls, cs', w') = reset_cars p cs (world s2)
                 in (Returned, ResetBasePositionAndOrientation (u_ballID s1) # calls,
                     s2\<lparr>cars := Some cs', world := w', running := True\<rparr>)))))"

text \<open>A sequence of calls of \<open>step\<close>, each with its \<open>(throttle_cmd, steering_cmd, dt)\<close>.\<close>

fun step_many ::
  "('w, 'c) pybullet \<Rightarrow> (real \<times> real \<times> real) list \<Rightarrow> ('w, 'c) Sim \<Rightarrow>
   engine_call list \<times> ('w, 'c) Sim" where
  "step_many p [] s = ([], s)"
| "step_many p ((throttle_cmd, steering_cmd, dt) # rest) s =
     (let (calls1, s1) = step p throttle_cmd steering_cmd dt s;
          (calls2, s2) = step_many p rest s1
      in (calls1 @ calls2, s2))"

text \<open>
  A stand-in engine for evaluating the model at concrete inputs: the world is the number
  of bodies loaded so far, \<open>loadURDF\<close> hands out the next id, a step adds 100 to the world,
  and the ball (the body \<open>getContactPoints\<close> is asked about) touches body \<open>other\<close>.
\<close>

definition demo_pybullet :: "int \<Rightarrow> (int, unit) pybullet" where
  "demo_pybullet other =
     \<lparr>connect = (\<lambda>gui w. (0, 0)),
      setAdditionalSearchPath = (\<lambda>w. w),
      getQuaternionFromEuler = (\<lambda>e. [0, 0, 0, 1]),
      loadURDF = (\<lambda>path posn orient fixed w. (w, w + 1)),
      setGravity = (\<lambda>x y z w. w),
      getContactPoints = (\<lambda>b w. [(0, b, other)]),
      stepSimulation = (\<lambda>w. w + 100),
      resetBasePositionAndOrientation = (\<lambda>b posn orient w. w),
      Car_new = (\<lambda>i l posn orient. ()),
      Car_step = (\<lambda>c cmd dt w. (c, w + 1000)),
      Car_reset = (\<lambda>c w. (c, w))\<rparr>"

definition demo_urdf_paths :: "string \<rightharpoonup> string" where
  "demo_urdf_paths =
     [''ball'' \<mapsto> ''ball.urdf'', ''goal'' \<mapsto> ''goal.urdf'', ''sidewall'' \<mapsto> ''sidewall.urdf'',
      ''backwall'' \<mapsto> ''backwall.urdf'', ''car'' \<mapsto> ''car.urdf'']"

definition demo_field_setup :: "string \<rightharpoonup> real list" where
  "demo_field_setup =
     [''ball'' \<mapsto> [0, 1, 0], ''goal'' \<mapsto> [0, 3, 0], ''leftsidewall'' \<mapsto> [- 2, 0, 0],
      ''rightsidewall'' \<mapsto> [2, 0, 0], ''frontbackwall'' \<mapsto> [0, 3, 0],
      ''backbackwall'' \<mapsto> [0, - 3, 0], ''car'' \<mapsto> [0, 0, 0]]"

text \<open>The object \<open>Sim(urdf_paths, field_setup, False)\<close> on the stand-in engine.\<close>

definition demo_Sim :: "(int, unit) Sim" where
  "demo_Sim =
     \<lparr>u_client = 0, u_planeID = 0, u_ballID = 1, u_goalID = 2, u_cars = [(7, ())],
      u_carID = 7, touched_last = None, scored = False, running = True,
      touchedLast = None, u_ballInitPos = None, u_ballInitOrient = None, cars = None,
      world = 8\<rparr>"

section \<open>The racersim ROS node (racersim/nodes/sim\_node.py)\<close>

text \<open>
  A \<open>rospy.Time\<close> is a count of nanoseconds, and so is the \<open>Duration\<close> that the
  difference of two times gives; \<open>to_sec\<close> turns a duration into seconds. The difference
  is exact on the integers. Python floats are idealised as reals.
\<close>

definition to_sec :: "int \<Rightarrow> real" where
  "to_sec d = real_of_int d / 1000000000"

text \<open>The three publishers of lines 62-66 and the topic each one was created for.\<close>

datatype publisher = ball_pub | bot_pub | goal_pub

fun topic_of :: "publisher \<Rightarrow> string" where
  "topic_of ball_pub = ''ball_pose''"
| "topic_of bot_pub = ''bot_odom''"
| "topic_of goal_pub = ''goal_pose''"

text \<open>
  The messages, with the fields the node writes. \<open>frame_id_attr\<close> is the attribute
  \<open>frame_id\<close> set on the message itself (lines 101 and 128; line 110 goes through
  \<open>header\<close>): \<open>None\<close> while the attribute does not exist.
\<close>

record Twist =
  linear_x :: real
  linear_y :: real
  linear_z :: real
  angular_x :: real
  angular_y :: real
  angular_z :: real

record PoseWithCovarianceStamped =
  header_stamp :: int
  header_frame_id :: string
  position_x :: real
  position_y :: real
  frame_id_attr :: "string option"

record Odometry =
  odom_header_stamp :: int
  odom_header_frame_id :: string
  odom_position_x :: real
  odom_position_y :: real
  odom_orientation_w :: real
  odom_orientation_z :: real
  twist_linear_x :: real
  twist_linear_y :: real
  twist_angular_x :: real
  twist_angular_y :: real

definition new_PoseWithCovarianceStamped :: PoseWithCovarianceStamped where
  "new_PoseWithCovarianceStamped =
     \<lparr>header_stamp = 0, header_frame_id = [], position_x = 0, position_y = 0,
      frame_id_attr = None\<rparr>"

definition new_Odometry :: Odometry where
  "new_Odometry =
     \<lparr>odom_header_stamp = 0, odom_header_frame_id = [], odom_position_x = 0,
      odom_position_y = 0, odom_orientation_w = 0, odom_orientation_z = 0,
      twist_linear_x = 0, twist_linear_y = 0, twist_angular_x = 0, twist_angular_y = 0\<rparr>"

text \<open>
  What a local variable of \<open>loop_once\<close> can be bound to. \<open>getPoint()\<close> gives a pair of
  coordinates: the node reads elements 0 and 1 of it, for the ball, the car and the goal.
\<close>

datatype pyval =
    PoseMsg PoseWithCovarianceStamped
  | OdomMsg Odometry
  | Point "real \<times> real"

text \<open>
  \<open>v[i]\<close>, \<open>v.header.stamp = t\<close>, \<open>v.frame_id = f\<close>, \<open>v.pose.pose.position.x = r\<close> and
  \<open>v.pose.pose.position.y = r\<close> on such a value. A pair has no attribute \<open>header\<close> or
  \<open>pose\<close>; a message is not subscriptable. Whether a message class accepts the
  assignment of an attribute it does not declare is decided outside the repository
  (a class with \<open>__slots__\<close> refuses it), so it is the parameter \<open>slots\<close>.
\<close>

definition getitem :: "pyval \<Rightarrow> nat \<Rightarrow> py_error + real" where
  "getitem v i =
     (case v of
        Point pt \<Rightarrow> (if i = 0 then Inr (fst pt) else if i = 1 then Inr (snd pt) else Inl IndexError)
      | PoseMsg m \<Rightarrow> Inl TypeError
      | OdomMsg m \<Rightarrow> Inl TypeError)"

definition set_header_stamp :: "pyval \<Rightarrow> int \<Rightarrow> py_error + pyval" where
  "set_header_stamp v t =
     (case v of
        PoseMsg m \<Rightarrow> Inr (PoseMsg (m\<lparr>header_stamp := t\<rparr>))
      | OdomMsg m \<Rightarrow> Inr (OdomMsg (m\<lparr>odom_header_stamp := t\<rparr>))
      | Point pt \<Rightarrow> Inl AttributeError)"

definition set_frame_id :: "bool \<Rightarrow> pyval \<Rightarrow> string \<Rightarrow> py_error + pyval" where
  "set_frame_id slots v f =
     (case v of
        PoseMsg m \<Rightarrow> (if slots then Inl AttributeError else Inr (PoseMsg (m\<lparr>frame_id_attr := Some f\<rparr>)))
      | OdomMsg m \<Rightarrow> Inl AttributeError
      | Point pt \<Rightarrow> Inl AttributeError)"

definition set_position_x :: "pyval \<Rightarrow> real \<Rightarrow> py_error + pyval" where
  "set_position_x v r =
     (case v of
        PoseMsg m \<Rightarrow> Inr (PoseMsg (m\<lparr>position_x := r\<rparr>))
      | OdomMsg m \<Rightarrow> Inr (OdomMsg (m\<lparr>odom_position_x := r\<rparr>))
      | Point pt \<Rightarrow> Inl AttributeError)"

definition set_position_y :: "pyval \<Rightarrow> real \<Rightarrow> py_error + pyval" where
  "set_position_y v r =
     (case v of
        PoseMsg m \<Rightarrow> Inr (PoseMsg (m\<lparr>position_y := r\<rparr>))
      | OdomMsg m \<Rightarrow> Inr (OdomMsg (m\<lparr>odom_position_y := r\<rparr>))
      | Point pt \<Rightarrow> Inl AttributeError)"

text \<open>
  \<open>racersim.Sim\<close> is external: its state is the abstract \<open>'w\<close>, and the calls and reads
  the node makes on it are functions, with results of the shape the node indexes them by.
\<close>

record 'w racersim =
  sim_step :: "real \<Rightarrow> real \<Rightarrow> real \<Rightarrow> 'w \<Rightarrow> 'w"
  ball_getPoint :: "'w \<Rightarrow> real \<times> real"
  car_getPoint :: "'w \<Rightarrow> real \<times> real"
  car_getQuaternion :: "'w \<Rightarrow> real \<times> real \<times> real \<times> real"
  car_linearVelocity :: "'w \<Rightarrow> real \<times> real"
  car_angularVelocity :: "'w \<Rightarrow> real \<times> real"
  goal_getPoint :: "'w \<Rightarrow> real \<times> real"
  msg_slots :: bool

text \<open>What a tick does to the outside, in order.\<close>

datatype event =
    Acquire
  | Release
  | SimStep real real real
  | Publish publisher pyval

text \<open>The node object; \<open>lock\<close> is \<open>True\<close> while \<open>self.lock\<close> is held.\<close>

record 'w RacerSimROS =
  sim :: 'w
  lock :: bool
  last_command :: "(int \<times> real \<times> real) option"
  last_time :: "int option"
  frame_id :: string
  timeout :: real

text \<open>\<open>rospy.get_param(name, default)\<close>.\<close>

definition get_param :: "(string \<rightharpoonup> 'a) \<Rightarrow> string \<Rightarrow> 'a \<Rightarrow> 'a" where
  "get_param params name dflt = (case params name of None \<Rightarrow> dflt | Some v \<Rightarrow> v)"

text \<open>
  \<open>RacerSimROS.__init__\<close>, lines 42-69, up to the loop: \<open>w\<close> is the simulator that
  \<open>racersim.Sim(...)\<close> built.
\<close>

definition RacerSimROS_init ::
  "(string \<rightharpoonup> string) \<Rightarrow> (string \<rightharpoonup> real) \<Rightarrow> 'w \<Rightarrow> 'w RacerSimROS" where
  "RacerSimROS_init str_params num_params w =
     \<lparr>sim = w, lock = False, last_command = None, last_time = None,
      frame_id = get_param str_params ''~frame_id'' ''sim'',
      timeout = get_param num_params ''~timeout'' 1.0\<rparr>"

text \<open>
  \<open>command_cb\<close>, lines 78-81; \<open>now\<close> is what \<open>rospy.Time.now()\<close> returns. The tuple is
  built and then bound by one assignment. The method does not touch the lock.
\<close>

definition command_cb :: "int \<Rightarrow> Twist \<Rightarrow> 'w RacerSimROS \<Rightarrow> event list \<times> 'w RacerSimROS" where
  "command_cb now command_msg s =
     ([], s\<lparr>last_command := Some (now, linear_x command_msg, angular_z command_msg)\<rparr>)"

text \<open>
  Lines 90-96: the step of the game; \<open>lt\<close> is \<open>self.last_time\<close>, and \<open>lin\<close>, \<open>ang\<close>
  are the source's \<open>linear\<close>, \<open>angular\<close>.
\<close>

definition iterate_game ::
  "'w racersim \<Rightarrow> int \<Rightarrow> int \<Rightarrow> 'w RacerSimROS \<Rightarrow> event list \<times> 'w" where
  "iterate_game ex now lt s =
     (case last_command s of
        None \<Rightarrow> ([], sim s)
      | Some (last_command_time, lin, ang) \<Rightarrow>
          (let delta_t = to_sec (now - lt)
           in if to_sec (now - last_command_time) \<ge> timeout s
              then ([SimStep 0.0 0.0 delta_t], sim_step ex 0.0 0.0 delta_t (sim s))
              else ([SimStep lin ang delta_t], sim_step ex lin ang delta_t (sim s))))"

text \<open>Lines 99-105: the ball.\<close>

definition publish_ball :: "'w racersim \<Rightarrow> string \<Rightarrow> int \<Rightarrow> 'w \<Rightarrow> py_error + event list" where
  "publish_ball ex fid now w =
     bind_err (set_header_stamp (PoseMsg new_PoseWithCovarianceStamped) now) (\<lambda>ball_msg.
     bind_err (set_frame_id (msg_slots ex) ball_msg fid) (\<lambda>ball_msg.
     (let ball_point = Point (ball_getPoint ex w) in
     bind_err (getitem ball_point 0) (\<lambda>x.
     bind_err (set_position_x ball_msg x) (\<lambda>ball_msg.
     bind_err (getitem ball_point 1) (\<lambda>y.
     bind_err (set_position_y ball_msg y) (\<lambda>ball_msg.
     Inr [Publish ball_pub ball_msg])))))))"

text \<open>Lines 108-123: the car. Every attribute written here is a declared field.\<close>

definition publish_bot :: "'w racersim \<Rightarrow> string \<Rightarrow> int \<Rightarrow> 'w \<Rightarrow> py_error + event list" where
  "publish_bot ex fid now w =
     (let bot_point = car_getPoint ex w;
          (qw, qx, qy, qz) = car_getQuaternion ex w;
          lin = car_linearVelocity ex w;
          ang = car_angularVelocity ex w
      in Inr [Publish bot_pub (OdomMsg (new_Odometry
            \<lparr>odom_header_stamp := now, odom_header_frame_id := fid,
             odom_position_x := fst bot_point, odom_position_y := snd bot_point,
             odom_orientation_w := qw, odom_orientation_z := qz,
             twist_linear_x := fst lin, twist_linear_y := snd lin,
             twist_angular_x := fst ang, twist_angular_y := snd ang\<rparr>))])"

text \<open>
  Lines 126-132: the goal. Line 129 binds \<open>goal_msg\<close> again, to the point; lines 130 and
  131 evaluate the right-hand side \<open>goal_msg[i]\<close> first and then the target
  \<open>goal_msg.pose.pose.position\<close>; line 132 publishes on \<open>self.ball_pub\<close>.
\<close>

definition publish_goal :: "'w racersim \<Rightarrow> string \<Rightarrow> int \<Rightarrow> 'w \<Rightarrow> py_error + event list" where
  "publish_goal ex fid now w =
     bind_err (set_header_stamp (PoseMsg new_PoseWithCovarianceStamped) now) (\<lambda>goal_msg.
     bind_err (set_frame_id (msg_slots ex) goal_msg fid) (\<lambda>goal_msg.
     (let goal_msg = Point (goal_getPoint ex w) in
     bind_err (getitem goal_msg 0) (\<lambda>x.
     bind_err (set_position_x goal_msg x) (\<lambda>goal_msg.
     bind_err (getitem goal_msg 1) (\<lambda>y.
     bind_err (set_position_y goal_msg y) (\<lambda>goal_msg.
     Inr [Publish ball_pub goal_msg])))))))"

text \<open>Lines 98-132 in order: what was published before an exception stays published.\<close>

definition publish_all ::
  "'w racersim \<Rightarrow> string \<Rightarrow> int \<Rightarrow> 'w \<Rightarrow> outcome \<times> event list" where
  "publish_all ex fid now w =
     (case publish_ball ex fid now w of
        Inl e \<Rightarrow> (Raised e, [])
      | Inr ev1 \<Rightarrow>
     (case publish_bot ex fid now w of
        Inl e \<Rightarrow> (Raised e, ev1)
      | Inr ev2 \<Rightarrow>
     (case publish_goal ex fid now w of
        Inl e \<Rightarrow> (Raised e, ev1 @ ev2)
      | Inr ev3 \<Rightarrow> (Returned, ev1 @ ev2 @ ev3))))"

text \<open>
  \<open>loop_once\<close>, lines 83-135; \<open>now\<close> is what \<open>rospy.Time.now()\<close> returns at line 86.
  \<open>Lock.acquire()\<close> on a held lock waits for a release, and nothing but \<open>loop_once\<close>
  itself releases this lock: the call never returns (\<open>Blocked\<close>). There is no
  \<open>try\<close>/\<open>finally\<close>: an exception leaves the method before lines 134 and 135.
\<close>

definition loop_once ::
  "'w racersim \<Rightarrow> int \<Rightarrow> 'w RacerSimROS \<Rightarrow> outcome \<times> event list \<times> 'w RacerSimROS" where
  "loop_once ex now s =
     (if lock s then (Blocked, [], s)
      else
        (let s1 = s\<lparr>lock := True\<rparr>
         in case last_time s1 of
              None \<Rightarrow> (Returned, [Acquire, Release], s1\<lparr>last_time := Some now, lock := False\<rparr>)
            | Some lt \<Rightarrow>
                (let (ev_step, w') = iterate_game ex now lt s1;
                     s2 = s1\<lparr>sim := w'\<rparr>;
                     (out, ev_pub) = publish_all ex (frame_id s2) now w'
                 in if out = Returned
                    then (Returned, Acquire # ev_step @ ev_pub @ [Release],
                          s2\<lparr>last_time := Some now, lock := False\<rparr>)
                    else (out, Acquire # ev_step @ ev_pub, s2))))"

text \<open>
  The node's life after \<open>__init__\<close> has set it up, lines 71-76: ticks of the loop, and
  command callbacks between them, each with the time \<open>rospy.Time.now()\<close> gave it. The
  result lists the ticks that ran, each with its time and its events. An exception of
  \<open>loop_once\<close> is not caught (the \<open>try\<close> of line 73 covers \<open>rate.sleep()\<close> only): it
  ends the loop, and so does a tick that never returns.
\<close>

datatype input = Tick int | Command int Twist

fun run_loop ::
  "'w racersim \<Rightarrow> input list \<Rightarrow> 'w RacerSimROS \<Rightarrow> (int \<times> event list) list" where
  "run_loop ex [] s = []"
| "run_loop ex (Command t command_msg # rest) s = run_loop ex rest (snd (command_cb t command_msg s))"
| "run_loop ex (Tick now # rest) s =
     (case loop_once ex now s of
        (out, evs, s') \<Rightarrow> (now, evs) # (if out = Returned then run_loop ex rest s' else []))"

text \<open>The arguments of the calls of the simulator's \<open>step\<close> among the events of a tick.\<close>

fun sim_steps :: "event list \<Rightarrow> (real \<times> real \<times> real) list" where
  "sim_steps [] = []"
| "sim_steps (SimStep l a dt # evs) = (l, a, dt) # sim_steps evs"
| "sim_steps (_ # evs) = sim_steps evs"

text \<open>The publications among the events of a tick, each with its topic.\<close>

fun publications :: "event list \<Rightarrow> (string \<times> pyval) list" where
  "publications [] = []"
| "publications (Publish pb m # evs) = (topic_of pb, m) # publications evs"
| "publications (_ # evs) = publications evs"

text \<open>The lock operations among the events of a tick.\<close>

fun lock_events :: "event list \<Rightarrow> event list" where
  "lock_events [] = []"
| "lock_events (Acquire # evs) = Acquire # lock_events evs"
| "lock_events (Release # evs) = Release # lock_events evs"
| "lock_events (_ # evs) = lock_events evs"

text \<open>
  A stand-in simulator for evaluating the model at concrete inputs: its state is the
  list of the calls of \<open>step\<close> so far, newest first, and nothing moves.
\<close>

definition demo_racersim :: "bool \<Rightarrow> ((real \<times> real \<times> real) list) racersim" where
  "demo_racersim slots =
     \<lparr>sim_step = (\<lambda>l a dt w. (l, a, dt) # w),
      ball_getPoint = (\<lambda>w. (1, 2)),
      car_getPoint = (\<lambda>w. (3, 4)),
      car_getQuaternion = (\<lambda>w. (1, 0, 0, 0)),
      car_linearVelocity = (\<lambda>w. (0, 0)),
      car_angularVelocity = (\<lambda>w. (0, 0)),
      goal_getPoint = (\<lambda>w. (5, 6)),
      msg_slots = slots\<rparr>"

text \<open>The node as \<open>__init__\<close> leaves it with no parameter set.\<close>

definition demo_node :: "((real \<times> real \<times> real) list) RacerSimROS" where
  "demo_node = RacerSimROS_init Map.empty Map.empty []"

definition demo_twist :: "real \<Rightarrow> real \<Rightarrow> Twist" where
  "demo_twist l a =
     \<lparr>linear_x = l, linear_y = 0, linear_z = 0, angular_x = 0, angular_y = 0, angular_z = a\<rparr>"

text \<open>
  The same node with a command \<open>(1.0, 0.0)\<close> received at time 0 before any tick, and the
  node after its first tick at time 0 (without and with that command).
\<close>

definition demo_node_cmd :: "((real \<times> real \<times> real) list) RacerSimROS" where
  "demo_node_cmd = snd (command_cb 0 (demo_twist 1 0) demo_node)"

definition demo_node_ticked :: "((real \<times> real \<times> real) list) RacerSimROS" where
  "demo_node_ticked = snd (snd (loop_once (demo_racersim False) 0 demo_node))"

definition demo_node_cmd_ticked :: "((real \<times> real \<times> real) list) RacerSimROS" where
  "demo_node_cmd_ticked = snd (snd (loop_once (demo_racersim False) 0 demo_node_cmd))"

section \<open>The tick and the command callbacks running concurrently\<close>

text \<open>
  \<open>loop_once\<close> runs in the node's main thread and \<open>command_cb\<close> in rospy's callback
  threads, so a callback can run between any two statements of a tick. Here the tick is
  cut at every access to the shared object. The program counter \<open>At\<close>\<open>n\<close> says that
  line \<open>n\<close> is the next to run, and carries the tick's local variables: \<open>now\<close>, then
  \<open>delta_t\<close>, then the unpacked \<open>last_command_time\<close>, \<open>lin\<close>, \<open>ang\<close>. \<open>Sleeping\<close> is the
  main thread between two ticks (\<open>rate.sleep()\<close>), \<open>Dead e\<close> the main thread after the
  exception \<open>e\<close> has left \<open>loop_once\<close> and, uncaught, the loop of lines 71-76.
\<close>

datatype tick_pc =
    Sleeping
  | At85 int
  | At88 int
  | At90 int
  | At91 int
  | At92 int real
  | At93 int real int real real
  | At98 int
  | At134 int
  | At135
  | Dead py_error

text \<open>
  One statement of the tick on the shared object: the events, the next program counter
  and the object; \<open>None\<close> where the thread cannot move (\<open>acquire\<close> on a held lock, or no
  tick running). Line 90 tests \<open>self.last_command\<close> and line 92 reads it again to unpack
  it; line 88 tests \<open>self.last_time\<close> and line 91 reads it again. Unpacking \<open>None\<close> and
  subtracting \<open>None\<close> raise TypeError. Lines 98-132 touch the simulator and the
  publishers only, and are one step.
\<close>

fun tick_step ::
  "'w racersim \<Rightarrow> tick_pc \<Rightarrow> 'w RacerSimROS \<Rightarrow> (event list \<times> tick_pc \<times> 'w RacerSimROS) option" where
  "tick_step ex Sleeping s = None"
| "tick_step ex (At85 now) s =
     (if lock s then None else Some ([Acquire], At88 now, s\<lparr>lock := True\<rparr>))"
| "tick_step ex (At88 now) s =
     Some ([], (case last_time s of None \<Rightarrow> At134 now | Some lt \<Rightarrow> At90 now), s)"
| "tick_step ex (At90 now) s =
     Some ([], (case last_command s of None \<Rightarrow> At98 now | Some cmd \<Rightarrow> At91 now), s)"
| "tick_step ex (At91 now) s =
     Some ([], (case last_time s of
                  None \<Rightarrow> Dead TypeError
                | Some lt \<Rightarrow> At92 now (to_sec (now - lt))), s)"
| "tick_step ex (At92 now delta_t) s =
     Some ([], (case last_command s of
                  None \<Rightarrow> Dead TypeError
                | Some (last_command_time, lin, ang) \<Rightarrow> At93 now delta_t last_command_time lin ang), s)"
| "tick_step ex (At93 now delta_t last_command_time lin ang) s =
     (if to_sec (now - last_command_time) \<ge> timeout s
      then Some ([SimStep 0.0 0.0 delta_t], At98 now, s\<lparr>sim := sim_step ex 0.0 0.0 delta_t (sim s)\<rparr>)
      else Some ([SimStep lin ang delta_t], At98 now, s\<lparr>sim := sim_step ex lin ang delta_t (sim s)\<rparr>))"
| "tick_step ex (At98 now) s =
     (case publish_all ex (frame_id s) now (sim s) of
        (Raised e, evs) \<Rightarrow> Some (evs, Dead e, s)
      | (_, evs) \<Rightarrow> Some (evs, At134 now, s))"
| "tick_step ex (At134 now) s = Some ([], At135, s\<lparr>last_time := Some now\<rparr>)"
| "tick_step ex At135 s = Some ([Release], Sleeping, s\<lparr>lock := False\<rparr>)"
| "tick_step ex (Dead e) s = None"

text \<open>
  The whole program: the shared object, the main thread's program counter, the callbacks
  under way, and the events so far. A callback under way has evaluated the right-hand side
  of line 81 (the tuple is built, in a local value) and has not yet assigned it; rospy may
  run several callbacks at once.
\<close>

record 'w config =
  node :: "'w RacerSimROS"
  pc :: tick_pc
  inflight :: "(int \<times> real \<times> real) list"
  trace :: "event list"

text \<open>
  What the scheduler can do next: start the next tick at time \<open>now\<close> (line 72, with the
  \<open>rospy.Time.now()\<close> of line 86), let the main thread run one statement, let a callback
  for a message arrive and build its tuple at time \<open>t\<close>, or let the \<open>i\<close>-th callback under
  way do its assignment.
\<close>

datatype action = StartTick int | TickStep | Deliver int Twist | Store nat

definition exec1 :: "'w racersim \<Rightarrow> action \<Rightarrow> 'w config \<Rightarrow> 'w config" where
  "exec1 ex a c =
     (case a of
        StartTick now \<Rightarrow> (if pc c = Sleeping then c\<lparr>pc := At85 now\<rparr> else c)
      | TickStep \<Rightarrow>
          (case tick_step ex (pc c) (node c) of
             None \<Rightarrow> c
           | Some (evs, pc', s') \<Rightarrow> c\<lparr>node := s', pc := pc', trace := trace c @ evs\<rparr>)
      | Deliver t command_msg \<Rightarrow>
          c\<lparr>inflight := inflight c @ [(t, linear_x command_msg, angular_z command_msg)]\<rparr>
      | Store i \<Rightarrow>
          (if i < length (inflight c)
           then c\<lparr>node := (node c)\<lparr>last_command := Some (inflight c ! i)\<rparr>,
                  inflight := take i (inflight c) @ drop (Suc i) (inflight c)\<rparr>
           else c))"

fun exec :: "'w racersim \<Rightarrow> action list \<Rightarrow> 'w config \<Rightarrow> 'w config" where
  "exec ex [] c = c"
| "exec ex (a # as) c = exec ex as (exec1 ex a c)"

text \<open>The program when the loop is about to start on the node \<open>s\<close>.\<close>

definition start :: "'w RacerSimROS \<Rightarrow> 'w config" where
  "start s = \<lparr>node = s, pc = Sleeping, inflight = [], trace = []\<rparr>"


subsection \<open>Invariants used in the proofs\<close>









section \<open>Theorems\<close>

subsection \<open>Image.setAngle\<close>

lemma setAngle_init_img: "init_img (setAngle pg a s) = init_img s"
  by (simp add: setAngle_def Let_def)

text \<open>
  Claim C10. For every Image asset and every angle \<open>a\<close>, \<open>setAngle\<close> rotates the stored
  initial image \<open>init_img\<close> (never the currently displayed \<open>img\<close>) and keeps
  \<open>init_img\<close> as it was, so a second \<open>setAngle a\<close> leaves the asset exactly as the first
  one did: rotation is idempotent, not cumulative.
\<close>

theorem setAngle_idempotent:
  "img (setAngle pg a s) = transform_rotate pg (init_img s) (if a < 0 then 360 + a else a)
   \<and> init_img (setAngle pg a s) = init_img s
   \<and> setAngle pg a (setAngle pg a s) = setAngle pg a s"
  by (simp add: setAngle_def Let_def)

subsection \<open>The tick of the racersim node\<close>

lemma publish_goal_raises: "publish_goal ex fid now w = Inl AttributeError"
  by (simp add: publish_goal_def bind_err_def set_header_stamp_def set_frame_id_def
      getitem_def set_position_x_def Let_def)

lemma publish_ball_cases:
  "publish_ball ex fid now w =
     (if msg_slots ex then Inl AttributeError
      else Inr [Publish ball_pub (PoseMsg (new_PoseWithCovarianceStamped
             \<lparr>header_stamp := now, position_x := fst (ball_getPoint ex w),
              position_y := snd (ball_getPoint ex w), frame_id_attr := Some fid\<rparr>))])"
  by (simp add: publish_ball_def bind_err_def set_header_stamp_def set_frame_id_def
      getitem_def set_position_x_def set_position_y_def Let_def)

lemma publish_bot_Inr: "\<exists>m. publish_bot ex fid now w = Inr [Publish bot_pub m]"
  by (simp add: publish_bot_def Let_def split: prod.splits)

lemma publish_all_cases:
  "\<exists>m1 m2. publish_all ex fid now w =
     (Raised AttributeError,
      if msg_slots ex then [] else [Publish ball_pub m1, Publish bot_pub m2])"
proof -
  obtain m where m: "publish_bot ex fid now w = Inr [Publish bot_pub m]"
    using publish_bot_Inr [of ex fid now w] by blast
  show ?thesis
    by (simp add: publish_all_def publish_ball_cases publish_goal_raises m)
qed

lemma iterate_game_cases:
  "iterate_game ex now lt s =
     (case last_command s of
        None \<Rightarrow> ([], sim s)
      | Some (t, l, a) \<Rightarrow>
          (if to_sec (now - t) \<ge> timeout s
           then ([SimStep 0 0 (to_sec (now - lt))], sim_step ex 0 0 (to_sec (now - lt)) (sim s))
           else ([SimStep l a (to_sec (now - lt))], sim_step ex l a (to_sec (now - lt)) (sim s))))"
  by (simp add: iterate_game_def Let_def split: option.splits prod.splits)

lemma loop_once_first:
  "\<not> lock s \<Longrightarrow> last_time s = None \<Longrightarrow>
   loop_once ex now s = (Returned, [Acquire, Release], s\<lparr>last_time := Some now\<rparr>)"
  by (simp add: loop_once_def Let_def)

lemma loop_once_later:
  assumes "\<not> lock s" and "last_time s = Some lt"
  shows "\<exists>pubs. loop_once ex now s =
           (Raised AttributeError,
            Acquire # fst (iterate_game ex now lt s) @ pubs,
            s\<lparr>lock := True, sim := snd (iterate_game ex now lt s)\<rparr>)
         \<and> sim_steps pubs = [] \<and> lock_events pubs = []
         \<and> map fst (publications pubs) = (if msg_slots ex then [] else [''ball_pose'', ''bot_odom''])"
proof -
  obtain evs w' where ig: "iterate_game ex now lt (s\<lparr>lock := True\<rparr>) = (evs, w')"
    by (cases "iterate_game ex now lt (s\<lparr>lock := True\<rparr>)")
  have same: "iterate_game ex now lt (s\<lparr>lock := True\<rparr>) = iterate_game ex now lt s"
    by (simp add: iterate_game_def Let_def split: option.splits)
  obtain m1 m2 where pa: "publish_all ex (frame_id s) now w' =
     (Raised AttributeError, if msg_slots ex then [] else [Publish ball_pub m1, Publish bot_pub m2])"
    using publish_all_cases [of ex "frame_id s" now w'] by blast
  show ?thesis
    using assms ig same pa
    by (cases "msg_slots ex") (auto simp add: loop_once_def Let_def)
qed

lemma sim_steps_append: "sim_steps (xs @ ys) = sim_steps xs @ sim_steps ys"
  by (induction xs rule: sim_steps.induct) simp_all

lemma lock_events_append: "lock_events (xs @ ys) = lock_events xs @ lock_events ys"
  by (induction xs rule: lock_events.induct) simp_all

lemma publications_append: "publications (xs @ ys) = publications xs @ publications ys"
  by (induction xs rule: publications.induct) simp_all

lemma iterate_game_no_lock: "lock_events (fst (iterate_game ex now lt s)) = []"
  by (simp add: iterate_game_cases split: option.splits)

lemma iterate_game_no_pub: "publications (fst (iterate_game ex now lt s)) = []"
  by (simp add: iterate_game_cases split: option.splits)

lemma iterate_game_steps:
  "(l, a, dt) \<in> set (sim_steps (fst (iterate_game ex now lt s))) \<Longrightarrow>
   dt = to_sec (now - lt) \<and> ((l = 0 \<and> a = 0) \<or> (\<exists>t. last_command s = Some (t, l, a)))"
  by (auto simp add: iterate_game_cases split: option.splits if_splits)

lemma loop_once_steps:
  assumes "(l, a, dt) \<in> set (sim_steps (fst (snd (loop_once ex now s))))"
  shows "(\<exists>lt. last_time s = Some lt \<and> dt = to_sec (now - lt))
         \<and> ((l = 0 \<and> a = 0) \<or> (\<exists>t. last_command s = Some (t, l, a)))"
proof (cases "lock s")
  case True
  with assms show ?thesis by (simp add: loop_once_def)
next
  case False
  show ?thesis
  proof (cases "last_time s")
    case None
    with False assms show ?thesis by (simp add: loop_once_first)
  next
    case (Some lt)
    obtain pubs where lo: "loop_once ex now s =
           (Raised AttributeError,
            Acquire # fst (iterate_game ex now lt s) @ pubs,
            s\<lparr>lock := True, sim := snd (iterate_game ex now lt s)\<rparr>)"
      and np: "sim_steps pubs = []"
      using loop_once_later [OF False Some, of ex now] by blast
    from assms have "(l, a, dt) \<in> set (sim_steps (fst (iterate_game ex now lt s)))"
      by (simp add: lo np sim_steps_append)
    then show ?thesis using Some iterate_game_steps by fastforce
  qed
qed

lemma loop_once_Returned:
  assumes "fst (loop_once ex now s) = Returned"
  shows "last_time (snd (snd (loop_once ex now s))) = Some now
         \<and> last_command (snd (snd (loop_once ex now s))) = last_command s"
proof (cases "lock s")
  case True
  with assms show ?thesis by (simp add: loop_once_def)
next
  case False
  show ?thesis
  proof (cases "last_time s")
    case None
    with False show ?thesis by (simp add: loop_once_first)
  next
    case (Some lt)
    with False assms loop_once_later [OF False Some, of ex now] show ?thesis by auto
  qed
qed

lemma loop_once_never_returns_after_first:
  "last_time s \<noteq> None \<Longrightarrow> fst (loop_once ex now s) \<noteq> Returned"
  using loop_once_later [of s _ ex now] by (cases "lock s") (auto simp add: loop_once_def)

lemma goal_topic_never_published:
  "''goal_pose'' \<notin> fst ` set (publications (fst (snd (loop_once ex now s))))"
proof (cases "lock s")
  case True
  then show ?thesis by (simp add: loop_once_def)
next
  case False
  show ?thesis
  proof (cases "last_time s")
    case None
    with False show ?thesis by (simp add: loop_once_first)
  next
    case (Some lt)
    obtain pubs where lo: "loop_once ex now s =
           (Raised AttributeError,
            Acquire # fst (iterate_game ex now lt s) @ pubs,
            s\<lparr>lock := True, sim := snd (iterate_game ex now lt s)\<rparr>)"
      and np: "map fst (publications pubs) = (if msg_slots ex then [] else [''ball_pose'', ''bot_odom''])"
      using loop_once_later [OF False Some, of ex now] by blast
    have "fst ` set (publications pubs) = set (map fst (publications pubs))" by simp
    also have "''goal_pose'' \<notin> \<dots>" unfolding np by simp
    finally show ?thesis
      by (simp add: lo publications_append iterate_game_no_pub del: set_map)
  qed
qed

lemma run_loop_dt:
  "i < length (run_loop ex ins s) \<Longrightarrow>
   (l, a, dt) \<in> set (sim_steps (snd (run_loop ex ins s ! i))) \<Longrightarrow>
   \<exists>lt. (if i = 0 then last_time s else Some (fst (run_loop ex ins s ! (i - 1)))) = Some lt
        \<and> dt = to_sec (fst (run_loop ex ins s ! i) - lt)"
proof (induction ex ins s arbitrary: i rule: run_loop.induct)
  case (1 ex s)
  then show ?case by simp
next
  case (2 ex t command_msg rest s)
  have lt: "last_time (snd (command_cb t command_msg s)) = last_time s"
    by (simp add: command_cb_def)
  from "2.IH" [of i] "2.prems" show ?case by (cases i) (simp_all add: lt)
next
  case (3 ex now rest s)
  obtain out evs s' where lo: "loop_once ex now s = (out, evs, s')"
    by (cases "loop_once ex now s")
  show ?case
  proof (cases i)
    case 0
    with "3.prems" lo loop_once_steps [of l a dt ex now s] show ?thesis by simp
  next
    case (Suc j)
    with "3.prems" lo have ret: "out = Returned"
      by (simp split: if_splits)
    from ret lo loop_once_Returned [of ex now s] have lt': "last_time s' = Some now" by simp
    from Suc "3.prems" lo ret have j: "j < length (run_loop ex rest s')"
      and mem: "(l, a, dt) \<in> set (sim_steps (snd (run_loop ex rest s' ! j)))"
      by simp_all
    from "3.IH" [OF lo [symmetric] refl ret j mem]
    show ?thesis using Suc lo ret lt' by (cases j) simp_all
  qed
qed

subsection \<open>The node at concrete inputs\<close>

lemmas demo_node_defs = demo_node_def demo_node_cmd_def demo_node_ticked_def
  demo_node_cmd_ticked_def RacerSimROS_init_def get_param_def command_cb_def demo_twist_def
  demo_racersim_def

lemmas eval_defs = loop_once_def iterate_game_def publish_all_def publish_ball_def
  publish_bot_def publish_goal_def bind_err_def set_header_stamp_def set_frame_id_def
  getitem_def set_position_x_def set_position_y_def Let_def to_sec_def
  new_PoseWithCovarianceStamped_def new_Odometry_def demo_racersim_def command_cb_def
  demo_twist_def

lemma demo_node_cmd_eq:
  "demo_node_cmd = \<lparr>sim = [], lock = False, last_command = Some (0, 1, 0), last_time = None,
      frame_id = ''sim'', timeout = 1\<rparr>"
  by (simp add: demo_node_defs)

lemma demo_node_ticked_eq:
  "demo_node_ticked = \<lparr>sim = [], lock = False, last_command = None, last_time = Some 0,
      frame_id = ''sim'', timeout = 1\<rparr>"
  by (simp add: demo_node_defs loop_once_def Let_def)

lemma demo_node_cmd_ticked_eq:
  "demo_node_cmd_ticked = \<lparr>sim = [], lock = False, last_command = Some (0, 1, 0), last_time = Some 0,
      frame_id = ''sim'', timeout = 1\<rparr>"
  by (simp add: demo_node_defs loop_once_def Let_def)

lemma demo_run:
  "run_loop (demo_racersim True) [Tick 0, Command 0 (demo_twist 1 0), Tick 50000000] demo_node
   = [(0, [Acquire, Release]), (50000000, [Acquire, SimStep 1 0 0.05])]"
  by (simp add: demo_node_def RacerSimROS_init_def get_param_def eval_defs)

subsection \<open>Claims about the racersim node\<close>

text \<open>
  Claim C1, as stated, at a first tick. The node has received the command \<open>(1.0, 0.0)\<close>
  at time 0 and has not ticked yet; its first tick comes 0.05 s later, well inside the
  timeout of 1 s. The claim has the simulator's \<open>step\<close> receive \<open>(1.0, 0.0)\<close> on this tick;
  the tick makes no call of \<open>step\<close> at all, because line 88 guards the whole body.
\<close>

theorem first_tick_with_command_makes_no_step:
  "\<not> lock demo_node_cmd \<and> last_command demo_node_cmd = Some (0, 1, 0)
   \<and> to_sec (50000000 - 0) < timeout demo_node_cmd
   \<and> sim_steps (fst (snd (loop_once (demo_racersim False) 50000000 demo_node_cmd))) = []"
  by (simp add: demo_node_cmd_eq loop_once_def Let_def to_sec_def)

text \<open>
  Claim C1, amended. On every tick after the first (\<open>last_time\<close> is set) that gets the lock
  and finds a stored command \<open>(t, lin, ang)\<close>, the simulator's \<open>step\<close> is called exactly
  once: with the zero command \<open>(0.0, 0.0)\<close> if \<open>now - t \<ge> timeout\<close>, and with the stored
  \<open>(lin, ang)\<close> unchanged otherwise. The age of the command is measured against the tick's
  own timestamp \<open>now\<close>.
\<close>

theorem later_tick_decays_command:
  assumes "\<not> lock s" and "last_time s = Some lt" and "last_command s = Some (t, lin, ang)"
  shows "sim_steps (fst (snd (loop_once ex now s))) =
           [if to_sec (now - t) \<ge> timeout s then (0, 0, to_sec (now - lt))
            else (lin, ang, to_sec (now - lt))]
         \<and> sim (snd (snd (loop_once ex now s))) =
           (if to_sec (now - t) \<ge> timeout s then sim_step ex 0 0 (to_sec (now - lt)) (sim s)
            else sim_step ex lin ang (to_sec (now - lt)) (sim s))"
proof -
  obtain pubs where lo: "loop_once ex now s =
           (Raised AttributeError,
            Acquire # fst (iterate_game ex now lt s) @ pubs,
            s\<lparr>lock := True, sim := snd (iterate_game ex now lt s)\<rparr>)"
    and np: "sim_steps pubs = []"
    using loop_once_later [OF assms(1,2), of ex now] by blast
  show ?thesis
    using assms(3) by (simp add: lo np sim_steps_append iterate_game_cases)
qed

theorem later_tick_decays_command_witness:
  "\<not> lock demo_node_cmd_ticked \<and> last_time demo_node_cmd_ticked = Some 0
   \<and> last_command demo_node_cmd_ticked = Some (0, 1, 0)
   \<and> sim_steps (fst (snd (loop_once (demo_racersim False) 50000000 demo_node_cmd_ticked))) =
       [(1, 0, 0.05)]
   \<and> sim_steps (fst (snd (loop_once (demo_racersim False) 1200000000 demo_node_cmd_ticked))) =
       [(0, 0, 1.2)]"
  using later_tick_decays_command [of demo_node_cmd_ticked 0 0 1 0 "demo_racersim False" 50000000]
    later_tick_decays_command [of demo_node_cmd_ticked 0 0 1 0 "demo_racersim False" 1200000000]
  by (simp add: demo_node_cmd_ticked_eq to_sec_def)

text \<open>
  Claim C2 at a concrete tick: the second tick of a fresh node, 0.05 s after the first.
  The claim has three messages published, the goal pose on the goal pose topic. The tick
  publishes on \<open>ball_pose\<close> and \<open>bot_odom\<close> and then raises AttributeError at line 130
  (\<open>goal_msg\<close> is the point by then); where the message classes refuse undeclared
  attributes it raises at line 101 already and publishes nothing. Line 132 would publish on
  \<open>self.ball_pub\<close>; \<open>self.goal_pub\<close> is never used (lemma \<open>goal_topic_never_published\<close>).
\<close>

theorem goal_pose_not_on_goal_topic:
  "\<not> lock demo_node_ticked \<and> last_time demo_node_ticked = Some 0
   \<and> fst (loop_once (demo_racersim False) 50000000 demo_node_ticked) = Raised AttributeError
   \<and> map fst (publications (fst (snd (loop_once (demo_racersim False) 50000000 demo_node_ticked))))
       = [''ball_pose'', ''bot_odom'']
   \<and> fst (loop_once (demo_racersim True) 50000000 demo_node_ticked) = Raised AttributeError
   \<and> publications (fst (snd (loop_once (demo_racersim True) 50000000 demo_node_ticked))) = []"
  by (simp add: demo_node_ticked_eq eval_defs)

text \<open>
  Claim C3. The first tick (\<open>last_time\<close> is \<open>None\<close>; the lock is free, nothing has taken it
  yet) returns normally, makes no call of the simulator's \<open>step\<close>, leaves the simulator as
  it was, and changes nothing in the node but \<open>last_time\<close>, which becomes \<open>now\<close>.
\<close>

theorem first_tick_records_time_only:
  assumes "\<not> lock s" and "last_time s = None"
  shows "loop_once ex now s = (Returned, [Acquire, Release], s\<lparr>last_time := Some now\<rparr>)
         \<and> sim_steps (fst (snd (loop_once ex now s))) = []
         \<and> sim (snd (snd (loop_once ex now s))) = sim s"
  using assms by (simp add: loop_once_first)

theorem first_tick_records_time_only_witness:
  "\<not> lock demo_node_cmd \<and> last_time demo_node_cmd = None
   \<and> loop_once (demo_racersim False) 50000000 demo_node_cmd =
       (Returned, [Acquire, Release], demo_node_cmd\<lparr>last_time := Some 50000000\<rparr>)
   \<and> sim (snd (snd (loop_once (demo_racersim False) 50000000 demo_node_cmd))) = []"
  using first_tick_records_time_only [of demo_node_cmd "demo_racersim False" 50000000]
  by (simp add: demo_node_cmd_eq)

text \<open>
  Claim C6. In every run of the node, from any state and with any timestamps (increasing
  or not), every \<open>dt\<close> passed to the simulator's \<open>step\<close> on a tick that has a tick before
  it is the difference between the timestamps of these two ticks, whether or not the
  earlier tick called \<open>step\<close>.
\<close>

theorem dt_is_difference_of_consecutive_ticks:
  assumes "Suc i < length (run_loop ex ins s)"
    and "(l, a, dt) \<in> set (sim_steps (snd (run_loop ex ins s ! Suc i)))"
  shows "dt = to_sec (fst (run_loop ex ins s ! Suc i) - fst (run_loop ex ins s ! i))"
  using run_loop_dt [OF assms] by simp

theorem dt_is_difference_of_consecutive_ticks_witness:
  "Suc 0 < length (run_loop (demo_racersim True)
                     [Tick 0, Command 0 (demo_twist 1 0), Tick 50000000] demo_node)
   \<and> (1, 0, 0.05) \<in> set (sim_steps (snd (run_loop (demo_racersim True)
                     [Tick 0, Command 0 (demo_twist 1 0), Tick 50000000] demo_node ! Suc 0)))
   \<and> (0.05 :: real) = to_sec (fst (run_loop (demo_racersim True)
                     [Tick 0, Command 0 (demo_twist 1 0), Tick 50000000] demo_node ! Suc 0)
                 - fst (run_loop (demo_racersim True)
                     [Tick 0, Command 0 (demo_twist 1 0), Tick 50000000] demo_node ! 0))"
proof -
  have h1: "Suc 0 < length (run_loop (demo_racersim True)
                     [Tick 0, Command 0 (demo_twist 1 0), Tick 50000000] demo_node)"
    unfolding demo_run by simp
  have h2: "(1, 0, 0.05) \<in> set (sim_steps (snd (run_loop (demo_racersim True)
                     [Tick 0, Command 0 (demo_twist 1 0), Tick 50000000] demo_node ! Suc 0)))"
    unfolding demo_run by simp
  from h1 h2 dt_is_difference_of_consecutive_ticks [OF h1 h2] show ?thesis
    by blast
qed

text \<open>
  Claim C8 at a concrete tick: the second tick of a fresh node that never received a
  command. The claim has the tick complete without error, publish the poses and update
  \<open>last_time\<close>. The simulator's \<open>step\<close> is indeed not called, but the tick raises
  AttributeError in the goal block (line 130), before lines 134 and 135: \<open>last_time\<close> keeps
  its old value and the lock stays held, so that a further call of \<open>loop_once\<close> would wait
  forever.
\<close>

theorem tick_without_command_raises:
  "last_command demo_node_ticked = None \<and> last_time demo_node_ticked = Some 0
   \<and> \<not> lock demo_node_ticked
   \<and> fst (loop_once (demo_racersim False) 50000000 demo_node_ticked) = Raised AttributeError
   \<and> sim_steps (fst (snd (loop_once (demo_racersim False) 50000000 demo_node_ticked))) = []
   \<and> last_time (snd (snd (loop_once (demo_racersim False) 50000000 demo_node_ticked))) = Some 0
   \<and> lock (snd (snd (loop_once (demo_racersim False) 50000000 demo_node_ticked)))
   \<and> fst (loop_once (demo_racersim False) 100000000
            (snd (snd (loop_once (demo_racersim False) 50000000 demo_node_ticked)))) = Blocked"
  by (simp add: demo_node_ticked_eq eval_defs)

subsection \<open>The tick and the callbacks interleaved\<close>

lemma publish_all_raises:
  "\<exists>evs. publish_all ex fid now w = (Raised AttributeError, evs) \<and> sim_steps evs = []
         \<and> lock_events evs = []"
proof -
  obtain m1 m2 where "publish_all ex fid now w =
     (Raised AttributeError, if msg_slots ex then [] else [Publish ball_pub m1, Publish bot_pub m2])"
    using publish_all_cases [of ex fid now w] by blast
  then show ?thesis by (cases "msg_slots ex") simp_all
qed













text \<open>
  The cut tick is \<open>loop_once\<close>: left to run alone from its start, it ends with the object,
  the events and the outcome of \<open>loop_once\<close>. A callback that builds its tuple and assigns
  it at once is \<open>command_cb\<close>.
\<close>

lemma exec_tick_is_loop_once:
  "node (exec ex [StartTick now, TickStep, TickStep, TickStep, TickStep, TickStep, TickStep,
                  TickStep, TickStep, TickStep] (start s)) = snd (snd (loop_once ex now s))
   \<and> trace (exec ex [StartTick now, TickStep, TickStep, TickStep, TickStep, TickStep, TickStep,
                  TickStep, TickStep, TickStep] (start s)) = fst (snd (loop_once ex now s))
   \<and> pc (exec ex [StartTick now, TickStep, TickStep, TickStep, TickStep, TickStep, TickStep,
                  TickStep, TickStep, TickStep] (start s))
       = (case fst (loop_once ex now s) of
            Returned \<Rightarrow> Sleeping | Raised e \<Rightarrow> Dead e | Blocked \<Rightarrow> At85 now)"
proof (cases "lock s")
  case True
  then show ?thesis by (simp add: exec1_def start_def loop_once_def)
next
  case False
  show ?thesis
  proof (cases "last_time s")
    case None
    with False show ?thesis by (simp add: exec1_def start_def loop_once_def Let_def)
  next
    case (Some lt)
    obtain evs where pa: "publish_all ex (frame_id s) now (sim s) = (Raised AttributeError, evs)"
      using publish_all_raises [of ex "frame_id s" now "sim s"] by blast
    show ?thesis
    proof (cases "last_command s")
      case None
      with False Some pa show ?thesis
        by (simp add: exec1_def start_def loop_once_def iterate_game_def Let_def)
    next
      case (Some cmd)
      obtain t lin ang where cmd: "cmd = (t, lin, ang)" by (cases cmd)
      obtain evs0 where p0: "publish_all ex (frame_id s) now
            (sim_step ex 0 0 (to_sec (now - lt)) (sim s)) = (Raised AttributeError, evs0)"
        using publish_all_raises [of ex "frame_id s" now
            "sim_step ex 0 0 (to_sec (now - lt)) (sim s)"] by blast
      obtain evs1 where p1: "publish_all ex (frame_id s) now
            (sim_step ex lin ang (to_sec (now - lt)) (sim s)) = (Raised AttributeError, evs1)"
        using publish_all_raises [of ex "frame_id s" now
            "sim_step ex lin ang (to_sec (now - lt)) (sim s)"] by blast
      from False \<open>last_time s = Some lt\<close> Some cmd p0 p1 show ?thesis
        by (simp add: exec1_def start_def loop_once_def iterate_game_def Let_def)
    qed
  qed
qed

lemma exec_callback_is_command_cb:
  "node (exec ex [Deliver t m, Store (length (inflight c))] c) = snd (command_cb t m (node c))
   \<and> trace (exec ex [Deliver t m, Store (length (inflight c))] c) = trace c @ fst (command_cb t m (node c))
   \<and> inflight (exec ex [Deliver t m, Store (length (inflight c))] c) = inflight c"
  by (simp add: exec1_def command_cb_def)


subsection \<open>Claim about the lock and the command tuple\<close>




subsection \<open>The pybullet simulator\<close>

lemma scan_contacts_keeps:
  "u_cars (snd (scan_contacts s cs)) = u_cars s \<and> world (snd (scan_contacts s cs)) = world s
   \<and> touched_last (snd (scan_contacts s cs)) = touched_last s
   \<and> u_goalID (snd (scan_contacts s cs)) = u_goalID s
   \<and> u_ballID (snd (scan_contacts s cs)) = u_ballID s
   \<and> u_ballInitPos (snd (scan_contacts s cs)) = u_ballInitPos s"
  by (induction s cs rule: scan_contacts.induct) simp_all

lemma scan_contacts_flag:
  "fst (scan_contacts s cs) \<Longrightarrow>
   scored (snd (scan_contacts s cs)) \<and> \<not> running (snd (scan_contacts s cs))"
  by (induction s cs rule: scan_contacts.induct) (auto split: if_splits)

lemma scan_contacts_goal:
  "\<exists>c \<in> set cs. contact2 c = u_goalID s \<Longrightarrow> u_goalID s \<notin> fst ` set (u_cars s) \<Longrightarrow>
   fst (scan_contacts s cs)"
  by (induction s cs rule: scan_contacts.induct) auto

lemma step_not_running: "\<not> running s \<Longrightarrow> step p th st dt s = ([], s)"
  by (simp add: step_def)

lemma step_many_not_running: "\<not> running s \<Longrightarrow> step_many p cmds s = ([], s)"
  by (induction cmds) (auto simp add: step_not_running)

lemma step_touched_last: "touched_last (snd (step p th st dt s)) = touched_last s"
proof (cases "running s")
  case False
  then show ?thesis by (simp add: step_not_running)
next
  case True
  obtain b s' where sc: "scan_contacts s (getContactPoints p (u_ballID s) (world s)) = (b, s')"
    by (cases "scan_contacts s (getContactPoints p (u_ballID s) (world s))")
  from scan_contacts_keeps [of s "getContactPoints p (u_ballID s) (world s)"] sc
  have "touched_last s' = touched_last s" by simp
  with True sc show ?thesis
    by (cases b) (simp_all add: step_def Let_def split: prod.splits)
qed

lemma reset_raises_after_init:
  "Sim_init p urdf_paths field_setup render_enabled w0 = Inr s \<Longrightarrow>
   reset p s = (Raised AttributeError, [], s\<lparr>running := False\<rparr>)"
  by (auto simp add: Sim_init_def reset_def bind_err_def Let_def
      split: prod.splits sum.splits)

lemmas demo_sim_defs = demo_pybullet_def demo_Sim_def step_def reset_def contact2_def Let_def

lemma demo_Sim_is_init:
  "Sim_init (demo_pybullet other) demo_urdf_paths demo_field_setup False 0 = Inr demo_Sim"
  by (simp add: Sim_init_def demo_pybullet_def demo_urdf_paths_def demo_field_setup_def
      demo_Sim_def load_body_def bind_err_def getitem_dict_def Let_def)

subsection \<open>Claims about the pybullet simulator\<close>

text \<open>
  Claim C4 at a concrete simulator: the object \<open>__init__\<close> builds, then \<open>reset()\<close>. The
  claim has \<open>reset\<close> restore the poses and leave \<open>running\<close> true. Line 117 reads
  \<open>self._ballInitPos\<close>, which no method assigns (nor \<open>self._ballInitOrient\<close>, nor
  \<open>self.cars\<close> of line 120; the dict is \<open>self._cars\<close>): \<open>reset\<close> raises AttributeError
  before any call of the engine, after line 113 has set \<open>running\<close> to false. No pose is
  restored and the simulator is left halted. Lemma \<open>reset_raises_after_init\<close> has the same
  for every engine and every setup.
\<close>

theorem reset_raises_on_fresh_Sim:
  "Sim_init (demo_pybullet 2) demo_urdf_paths demo_field_setup False 0 = Inr demo_Sim
   \<and> reset (demo_pybullet 2) demo_Sim = (Raised AttributeError, [], demo_Sim\<lparr>running := False\<rparr>)
   \<and> running (snd (snd (reset (demo_pybullet 2) demo_Sim))) = False"
  by (simp add: demo_Sim_is_init) (simp add: demo_sim_defs)

text \<open>
  Claim C5. When a call of \<open>step\<close> on a running simulator finds the goal among the bodies
  in contact with the ball (the goal is not one of the cars), it sets \<open>scored\<close>, clears
  \<open>running\<close> and returns having stepped no car and not advanced the engine; and every
  sequence of further calls of \<open>step\<close>, with any arguments, makes no call of the engine and
  leaves the whole object, the engine's world included, as it is. Only \<open>reset\<close> assigns
  \<open>running\<close> otherwise.
\<close>

theorem goal_contact_halts_stepping:
  assumes "running s"
    and "\<exists>c \<in> set (getContactPoints p (u_ballID s) (world s)). contact2 c = u_goalID s"
    and "u_goalID s \<notin> fst ` set (u_cars s)"
  shows "scored (snd (step p th st dt s)) \<and> \<not> running (snd (step p th st dt s))
         \<and> fst (step p th st dt s) = [GetContactPoints (u_ballID s)]
         \<and> world (snd (step p th st dt s)) = world s
         \<and> u_cars (snd (step p th st dt s)) = u_cars s
         \<and> step_many p cmds (snd (step p th st dt s)) = ([], snd (step p th st dt s))"
proof -
  let ?cs = "getContactPoints p (u_ballID s) (world s)"
  obtain s' where sc: "scan_contacts s ?cs = (True, s')"
    using scan_contacts_goal [OF assms(2,3)] by (cases "scan_contacts s ?cs") simp
  have st: "step p th st dt s = ([GetContactPoints (u_ballID s)], s')"
    using assms(1) sc by (simp add: step_def)
  from scan_contacts_flag [of s ?cs] sc have fl: "scored s' \<and> \<not> running s'" by simp
  from scan_contacts_keeps [of s ?cs] sc have kp: "world s' = world s \<and> u_cars s' = u_cars s"
    by simp
  show ?thesis using fl kp by (simp add: st step_many_not_running)
qed

theorem goal_contact_halts_stepping_witness:
  "running demo_Sim
   \<and> (\<exists>c \<in> set (getContactPoints (demo_pybullet 2) (u_ballID demo_Sim) (world demo_Sim)).
         contact2 c = u_goalID demo_Sim)
   \<and> u_goalID demo_Sim \<notin> fst ` set (u_cars demo_Sim)
   \<and> fst (step (demo_pybullet 2) 1 0 0.1 demo_Sim) = [GetContactPoints 1]
   \<and> snd (step (demo_pybullet 2) 1 0 0.1 demo_Sim) = demo_Sim\<lparr>scored := True, running := False\<rparr>
   \<and> step_many (demo_pybullet 2) [(1, 0, 0.1), (0, 1, 0.1)]
        (snd (step (demo_pybullet 2) 1 0 0.1 demo_Sim))
      = ([], demo_Sim\<lparr>scored := True, running := False\<rparr>)"
proof -
  have h1: "running demo_Sim" by (simp add: demo_Sim_def)
  have h2: "\<exists>c \<in> set (getContactPoints (demo_pybullet 2) (u_ballID demo_Sim) (world demo_Sim)).
         contact2 c = u_goalID demo_Sim"
    by (simp add: demo_sim_defs)
  have h3: "u_goalID demo_Sim \<notin> fst ` set (u_cars demo_Sim)" by (simp add: demo_Sim_def)
  have ev: "snd (step (demo_pybullet 2) 1 0 0.1 demo_Sim) = demo_Sim\<lparr>scored := True, running := False\<rparr>"
    by (simp add: demo_sim_defs)
  from goal_contact_halts_stepping [OF h1 h2 h3, of 1 0 "0.1" "[(1, 0, 0.1), (0, 1, 0.1)]"]
  show ?thesis using h1 h2 h3 ev by (simp add: demo_Sim_def)
qed

text \<open>
  Claim C7 at a concrete call: a fresh simulator whose ball touches the car (body 7), one
  call of \<open>step\<close>. The claim has \<open>touched_last\<close> become the car's id. Line 87 assigns
  \<open>self.touchedLast\<close>, another attribute: \<open>touched_last\<close>, the field \<open>__init__\<close> and \<open>reset\<close>
  set, is still \<open>None\<close>. Lemma \<open>step_touched_last\<close> has it for every call of \<open>step\<close>.
\<close>

theorem car_contact_misses_touched_last:
  "Sim_init (demo_pybullet 7) demo_urdf_paths demo_field_setup False 0 = Inr demo_Sim
   \<and> running demo_Sim
   \<and> map contact2 (getContactPoints (demo_pybullet 7) (u_ballID demo_Sim) (world demo_Sim)) = [7]
   \<and> 7 \<in> fst ` set (u_cars demo_Sim)
   \<and> touched_last (snd (step (demo_pybullet 7) 1 0 0.1 demo_Sim)) = None
   \<and> touchedLast (snd (step (demo_pybullet 7) 1 0 0.1 demo_Sim)) = Some 7"
  by (simp add: demo_Sim_is_init) (simp add: demo_sim_defs)

end
